theory Spec2Isabelle
  imports Complex_Main
begin

section \<open>Token-list generation from trading pairs (script/blockchain/ethereum.ts)\<close>

text \<open>
  The module reads trading pairs from a subgraph, keeps the pairs that pass
  \<open>checkTradingPair\<close>, turns both tokens of every kept pair into token-list items and
  adds them to the base token list. The Smart Chain module is the same code with other
  constants, so the constants of a module are collected in the record \<open>chain\<close>.

  Exceptions are values: a function that can throw returns \<open>error + 'a\<close>, with \<open>Inl\<close>
  for the exception.
\<close>

subsection \<open>Data\<close>

datatype error = TypeError | MalformedTokenError

text \<open>
  The \<open>decimals\<close> field of a token as it arrives in the JSON answer: a string, a number,
  or nothing (\<open>undefined\<close> or \<open>null\<close>). Numbers are integers here; their
  \<open>toString()\<close> is the decimal numeral, which is what JavaScript prints for integers of
  magnitude below \<open>10^21\<close>.
\<close>

datatype js_decimals = DecimalsString string | DecimalsNumber int | DecimalsAbsent

text \<open>
  The \<open>reserveUSD\<close> field: a finite number, \<open>null\<close>, or \<open>undefined\<close> (the key is
  missing). A JSON answer holds no \<open>NaN\<close>.
\<close>

datatype js_reserve = ReserveNumber real | ReserveNull | ReserveUndefined

text \<open>The result of \<open>parseInt\<close>: an integer or \<open>NaN\<close>.\<close>

datatype js_int = IntValue int | NaN

record TokenInfo =
  token_id :: string
  symbol :: string
  name :: string
  decimals :: js_decimals

text \<open>
  A pair is cast from the JSON answer (\<open>x as PairInfo\<close>), so any field can be missing
  at run time: \<open>None\<close> is \<open>undefined\<close> or \<open>null\<close>.
\<close>

record PairInfo =
  pair_id :: "string option"
  reserveUSD :: js_reserve
  token0 :: "TokenInfo option"
  token1 :: "TokenInfo option"

text \<open>An element of the array that \<open>getTradingPairs\<close> returns (\<open>unknown[]\<close>).\<close>

datatype raw_item = RawObject PairInfo | RawNull | RawPrimitive

record TokenItem =
  item_asset :: string
  item_type :: string
  address :: string
  item_name :: string
  item_symbol :: string
  item_decimals :: js_int
  item_logoURI :: string
  item_pairs :: "string list"

text \<open>The constants in which the Ethereum and the Smart Chain module differ.\<close>

record chain =
  PrimaryTokens :: "string list"
  MinLiquidity :: real
  coinType :: nat
  tokenType :: string
  logoChain :: string

definition Ethereum :: chain where
  "Ethereum = \<lparr> PrimaryTokens = [''WETH'', ''ETH''], MinLiquidity = 1000000,
     coinType = 60, tokenType = ''ERC20'', logoChain = ''ethereum'' \<rparr>"

definition SmartChain :: chain where
  "SmartChain = \<lparr> PrimaryTokens = [''WBNB'', ''BNB''], MinLiquidity = 1000000,
     coinType = 20000714, tokenType = ''BEP20'', logoChain = ''smartchain'' \<rparr>"

text \<open>
  The functions of \<open>../generic\<close> that the module calls and whose code is elsewhere are
  parameters: the logo path of a token id on this chain, the existence of a path in the
  file system, the address checksum (which may throw), and the two string builders.
\<close>

record collaborators =
  getChainAssetLogoPath :: "string \<Rightarrow> string"
  isPathExistsSync :: "string \<Rightarrow> bool"
  toChecksum :: "string \<Rightarrow> error + string"
  assetID :: "nat \<Rightarrow> string \<Rightarrow> string"
  logoURI :: "string \<Rightarrow> string \<Rightarrow> string \<Rightarrow> string"

subsection \<open>JavaScript built-ins\<close>

text \<open>\<open>toUpperCase\<close> and \<open>toLowerCase\<close> on ASCII strings.\<close>

definition toUpperChar :: "char \<Rightarrow> char" where
  "toUpperChar c =
     (case map_of (zip ''abcdefghijklmnopqrstuvwxyz'' ''ABCDEFGHIJKLMNOPQRSTUVWXYZ'') c of
        Some u \<Rightarrow> u | None \<Rightarrow> c)"

definition toLowerChar :: "char \<Rightarrow> char" where
  "toLowerChar c =
     (case map_of (zip ''ABCDEFGHIJKLMNOPQRSTUVWXYZ'' ''abcdefghijklmnopqrstuvwxyz'') c of
        Some l \<Rightarrow> l | None \<Rightarrow> c)"

definition toUpperCase :: "string \<Rightarrow> string" where
  "toUpperCase s = map toUpperChar s"

definition toLowerCase :: "string \<Rightarrow> string" where
  "toLowerCase s = map toLowerChar s"

text \<open>\<open>!x\<close> for a string, a number and an object reference.\<close>

definition not_string :: "string option \<Rightarrow> bool" where
  "not_string s = (case s of None \<Rightarrow> True | Some v \<Rightarrow> v = [])"

definition not_number :: "js_reserve \<Rightarrow> bool" where
  "not_number r = (case r of ReserveNumber v \<Rightarrow> v = 0 | ReserveNull \<Rightarrow> True
                     | ReserveUndefined \<Rightarrow> True)"

definition not_object :: "'a option \<Rightarrow> bool" where
  "not_object x = (x = None)"

text \<open>
  \<open>r < m\<close> for a number \<open>m\<close>: \<open>null\<close> converts to \<open>0\<close>, \<open>undefined\<close> to \<open>NaN\<close>, and
  every comparison with \<open>NaN\<close> is false.
\<close>

definition less_number :: "js_reserve \<Rightarrow> real \<Rightarrow> bool" where
  "less_number r m = (case r of ReserveNumber v \<Rightarrow> v < m | ReserveNull \<Rightarrow> 0 < m
                        | ReserveUndefined \<Rightarrow> False)"

text \<open>
  \<open>Array.prototype.find\<close> with a callback that may throw: the callback runs on the
  elements in order until it returns true, and is never run on an empty array.
\<close>

fun array_find :: "('a \<Rightarrow> error + bool) \<Rightarrow> 'a list \<Rightarrow> error + 'a option" where
  "array_find f [] = Inr None"
| "array_find f (x # xs) =
     (case f x of Inl e \<Rightarrow> Inl e
      | Inr b \<Rightarrow> if b then Inr (Some x) else array_find f xs)"

text \<open>
  \<open>parseInt(s)\<close> without a radix, on ASCII strings: leading white space is dropped,
  then an optional sign,
  then \<open>0x\<close> or \<open>0X\<close> selects radix 16; the longest prefix of digits is the value, and
  no digit at all gives \<open>NaN\<close>. The value is the exact integer (JavaScript rounds it to
  a double above \<open>2^53\<close>).
\<close>

definition isWhiteSpace :: "char \<Rightarrow> bool" where
  "isWhiteSpace c = (c \<in> set [CHR 0x09, CHR 0x0A, CHR 0x0B, CHR 0x0C, CHR 0x0D, CHR 0x20])"

definition digitValue :: "char \<Rightarrow> nat option" where
  "digitValue c = map_of (zip ''0123456789abcdefABCDEF''
     [0, 1, 2, 3, 4, 5, 6, 7, 8, 9, 10, 11, 12, 13, 14, 15, 10, 11, 12, 13, 14, 15]) c"

definition isRadixDigit :: "nat \<Rightarrow> char \<Rightarrow> bool" where
  "isRadixDigit R c = (case digitValue c of None \<Rightarrow> False | Some d \<Rightarrow> d < R)"

definition radixValue :: "nat \<Rightarrow> string \<Rightarrow> int" where
  "radixValue R Z = foldl (\<lambda>a c. a * int R + int (the (digitValue c))) 0 Z"

definition stripSign :: "string \<Rightarrow> int \<times> string" where
  "stripSign S = (case S of [] \<Rightarrow> (1, [])
     | c # r \<Rightarrow> if c = CHR ''-'' then (- 1, r) else if c = CHR ''+'' then (1, r) else (1, S))"

definition stripPrefix :: "string \<Rightarrow> nat \<times> string" where
  "stripPrefix S = (if take 2 S = ''0x'' \<or> take 2 S = ''0X'' then (16, drop 2 S) else (10, S))"

definition parseInt :: "string \<Rightarrow> js_int" where
  "parseInt s =
     (let (sign, S1) = stripSign (dropWhile isWhiteSpace s);
          (R, S2) = stripPrefix S1;
          Z = takeWhile (isRadixDigit R) S2
      in if Z = [] then NaN else IntValue (sign * radixValue R Z))"

text \<open>\<open>toString()\<close> of an integer number.\<close>

definition digitChar :: "nat \<Rightarrow> char" where
  "digitChar d = ''0123456789'' ! d"

fun natToString :: "nat \<Rightarrow> string" where
  "natToString n = (if n < 10 then [digitChar n]
                    else natToString (n div 10) @ [digitChar (n mod 10)])"

declare natToString.simps [simp del]

definition intToString :: "int \<Rightarrow> string" where
  "intToString i = (if i < 0 then CHR ''-'' # natToString (nat (- i)) else natToString (nat i))"

text \<open>\<open>token.decimals.toString()\<close>: a method call on \<open>undefined\<close> or \<open>null\<close> throws.\<close>

definition decimalsToString :: "js_decimals \<Rightarrow> error + string" where
  "decimalsToString d = (case d of DecimalsString s \<Rightarrow> Inr s
     | DecimalsNumber i \<Rightarrow> Inr (intToString i)
     | DecimalsAbsent \<Rightarrow> Inl TypeError)"

subsection \<open>Qualification of a trading pair\<close>

definition checkEthTokenExists :: "collaborators \<Rightarrow> string \<Rightarrow> string list \<Rightarrow> bool" where
  "checkEthTokenExists env tid tokenAllowlist =
     (let logoPath = getChainAssetLogoPath env tid in
      if \<not> isPathExistsSync env logoPath then False
      else if List.find (\<lambda>t. toLowerCase tid = toLowerCase t) tokenAllowlist = None then False
      else True)"

text \<open>
  \<open>isTokenPrimary\<close>: the callback reads \<open>token.symbol\<close>, which throws when the token is
  missing.
\<close>

definition isTokenPrimary :: "chain \<Rightarrow> TokenInfo option \<Rightarrow> error + bool" where
  "isTokenPrimary ch token =
     (case array_find
             (\<lambda>t. case token of None \<Rightarrow> Inl TypeError
                  | Some tk \<Rightarrow> Inr (t = toUpperCase (symbol tk)))
             (PrimaryTokens ch) of
        Inl e \<Rightarrow> Inl e
      | Inr r \<Rightarrow> Inr (r \<noteq> None))"

text \<open>Which token of the pair is the primary token: 1, 2, or 0 for none.\<close>

definition primaryTokenIndex :: "chain \<Rightarrow> PairInfo \<Rightarrow> error + nat" where
  "primaryTokenIndex ch pair =
     (case isTokenPrimary ch (token0 pair) of Inl e \<Rightarrow> Inl e
      | Inr p0 \<Rightarrow> if p0 then Inr 1
          else (case isTokenPrimary ch (token1 pair) of Inl e \<Rightarrow> Inl e
                | Inr p1 \<Rightarrow> if p1 then Inr 2 else Inr 0))"

text \<open>The first test of \<open>checkTradingPair\<close>.\<close>

definition structuralGuard :: "PairInfo \<Rightarrow> bool" where
  "structuralGuard pair =
     (not_string (pair_id pair) \<and> not_number (reserveUSD pair)
      \<and> not_object (token0 pair) \<and> not_object (token1 pair))"

text \<open>
  \<open>checkTradingPair\<close>. The log line of the first rejection reads \<open>pair.token1.symbol\<close>,
  so it throws when the second token is missing.
\<close>

definition checkTradingPair ::
    "collaborators \<Rightarrow> chain \<Rightarrow> PairInfo \<Rightarrow> real \<Rightarrow> string list \<Rightarrow> error + bool" where
  "checkTradingPair env ch pair minLiquidity tokenAllowlist =
     (if structuralGuard pair then Inr False
      else if less_number (reserveUSD pair) minLiquidity then Inr False
      else (case token0 pair of
              None \<Rightarrow> Inl TypeError
            | Some t0 \<Rightarrow>
                (if \<not> checkEthTokenExists env (token_id t0) tokenAllowlist
                 then (case token1 pair of None \<Rightarrow> Inl TypeError | Some t1 \<Rightarrow> Inr False)
                 else (case token1 pair of
                         None \<Rightarrow> Inl TypeError
                       | Some t1 \<Rightarrow>
                           (if \<not> checkEthTokenExists env (token_id t1) tokenAllowlist
                            then Inr False
                            else (case primaryTokenIndex ch pair of
                                    Inl e \<Rightarrow> Inl e
                                  | Inr k \<Rightarrow> if k = 0 then Inr False else Inr True))))))"

text \<open>
  The filter loop of \<open>retrieveUniswapPairs\<close>: each element is handled inside
  \<open>try\<close>/\<open>catch\<close>, and a pair is kept when \<open>checkTradingPair\<close> returns true.
\<close>

definition filterStep ::
    "collaborators \<Rightarrow> chain \<Rightarrow> string list \<Rightarrow> PairInfo list \<Rightarrow> raw_item \<Rightarrow> PairInfo list" where
  "filterStep env ch allowlist filtered x =
     (case x of
        RawObject pairInfo \<Rightarrow>
          (case checkTradingPair env ch pairInfo (MinLiquidity ch) allowlist of
             Inl err \<Rightarrow> filtered
           | Inr ok \<Rightarrow> if ok then filtered @ [pairInfo] else filtered)
      | RawNull \<Rightarrow> filtered
      | RawPrimitive \<Rightarrow> filtered)"

definition retrieveUniswapPairs ::
    "collaborators \<Rightarrow> chain \<Rightarrow> string list \<Rightarrow> raw_item list \<Rightarrow> PairInfo list" where
  "retrieveUniswapPairs env ch allowlist pairs = foldl (filterStep env ch allowlist) [] pairs"

subsection \<open>Token items and the merge\<close>

definition tokenInfoFromSubgraphToken ::
    "collaborators \<Rightarrow> chain \<Rightarrow> TokenInfo option \<Rightarrow> error + TokenItem" where
  "tokenInfoFromSubgraphToken env ch token =
     (case token of None \<Rightarrow> Inl TypeError
      | Some tk \<Rightarrow>
          (case toChecksum env (token_id tk) of Inl e \<Rightarrow> Inl e
           | Inr idChecksum \<Rightarrow>
               (case decimalsToString (decimals tk) of Inl e \<Rightarrow> Inl e
                | Inr ds \<Rightarrow>
                    Inr \<lparr> item_asset = assetID env (coinType ch) idChecksum,
                          item_type = tokenType ch,
                          address = idChecksum,
                          item_name = name tk,
                          item_symbol = symbol tk,
                          item_decimals = parseInt ds,
                          item_logoURI = logoURI env idChecksum (logoChain ch) ''--'',
                          item_pairs = [] \<rparr>)))"

text \<open>
  Modelled from the spec: the membership test and append that \<open>addPairIfNeeded\<close> of
  \<open>../generic/tokenlists\<close> performs for one token; the code of that module is not in
  this one. The spec: a token exists in the list when an entry has the same checksummed
  address; an absent token is appended; an entry that is already there is left as it is.
\<close>

definition addTokenIfNeeded :: "TokenItem \<Rightarrow> TokenItem list \<Rightarrow> TokenItem list" where
  "addTokenIfNeeded t tokens =
     (if address t \<in> set (map address tokens) then tokens else tokens @ [t])"

text \<open>
  Modelled from the spec: \<open>addPairIfNeeded\<close> of \<open>../generic/tokenlists\<close>, whose code
  is not in this module. The spec: both tokens are made to exist in the list, an absent one
  being appended, in the order first token, second token.
\<close>

definition addPairIfNeeded :: "TokenItem \<Rightarrow> TokenItem \<Rightarrow> TokenItem list \<Rightarrow> TokenItem list" where
  "addPairIfNeeded token0' token1' tokens = addTokenIfNeeded token1' (addTokenIfNeeded token0' tokens)"

text \<open>The merge of a sequence of oriented pairs of items.\<close>

fun mergeAll :: "TokenItem list \<Rightarrow> (TokenItem \<times> TokenItem) list \<Rightarrow> TokenItem list" where
  "mergeAll tokens [] = tokens"
| "mergeAll tokens ((a, b) # ps) = mergeAll (addPairIfNeeded a b tokens) ps"

text \<open>
  The body of the loop of \<open>generateTokenlist\<close> up to the call of \<open>addPairIfNeeded\<close>:
  the two items in the order in which they are handed over.
\<close>

definition orientedPair ::
    "collaborators \<Rightarrow> chain \<Rightarrow> PairInfo \<Rightarrow> error + (TokenItem \<times> TokenItem)" where
  "orientedPair env ch p =
     (case tokenInfoFromSubgraphToken env ch (token0 p) of Inl e \<Rightarrow> Inl e
      | Inr tokenItem0 \<Rightarrow>
          (case tokenInfoFromSubgraphToken env ch (token1 p) of Inl e \<Rightarrow> Inl e
           | Inr tokenItem1 \<Rightarrow>
               (case primaryTokenIndex ch p of Inl e \<Rightarrow> Inl e
                | Inr k \<Rightarrow> if k = 2 then Inr (tokenItem1, tokenItem0)
                           else Inr (tokenItem0, tokenItem1))))"

text \<open>
  The loop of \<open>generateTokenlist\<close> over the retrieved pairs. It has no
  \<open>try\<close>/\<open>catch\<close>: an exception ends the function before the list is written. The
  result is \<open>list.tokens\<close> after the loop.
\<close>

fun mergeTradingPairs ::
    "collaborators \<Rightarrow> chain \<Rightarrow> PairInfo list \<Rightarrow> TokenItem list \<Rightarrow> error + TokenItem list" where
  "mergeTradingPairs env ch [] tokens = Inr tokens"
| "mergeTradingPairs env ch (p # ps) tokens =
     (case orientedPair env ch p of Inl e \<Rightarrow> Inl e
      | Inr (a, b) \<Rightarrow> mergeTradingPairs env ch ps (addPairIfNeeded a b tokens))"

definition generateTokenlist ::
    "collaborators \<Rightarrow> chain \<Rightarrow> string list \<Rightarrow> raw_item list \<Rightarrow> TokenItem list
       \<Rightarrow> error + TokenItem list" where
  "generateTokenlist env ch allowlist pairs tokens =
     mergeTradingPairs env ch (retrieveUniswapPairs env ch allowlist pairs) tokens"

subsection \<open>The classifier and the admission rule in the words of the specification\<close>

text \<open>
  The specification names the result of the classifier \<open>NONE\<close>, \<open>FIRST\<close>, \<open>SECOND\<close>
  and takes the primary symbols as a set whose members are compared without regard to
  case. These definitions follow the specification; the theorems compare them with the
  code.
\<close>

datatype side = NONE | FIRST | SECOND

definition side_of_index :: "nat \<Rightarrow> side" where
  "side_of_index k = (if k = 1 then FIRST else if k = 2 then SECOND else NONE)"

definition isPrimary_spec :: "TokenInfo \<Rightarrow> string list \<Rightarrow> bool" where
  "isPrimary_spec token primarySymbols =
     (toUpperCase (symbol token) \<in> set (map toUpperCase primarySymbols))"

definition primarySide_spec :: "TokenInfo \<Rightarrow> TokenInfo \<Rightarrow> string list \<Rightarrow> side" where
  "primarySide_spec t0 t1 primarySymbols =
     (if isPrimary_spec t0 primarySymbols then FIRST
      else if isPrimary_spec t1 primarySymbols then SECOND else NONE)"

text \<open>
  The two tests of \<open>checkEthTokenExists\<close> on a token, and the test of
  \<open>isTokenPrimary\<close> on a symbol, as predicates.
\<close>

definition hasLogo :: "collaborators \<Rightarrow> TokenInfo \<Rightarrow> bool" where
  "hasLogo env t = isPathExistsSync env (getChainAssetLogoPath env (token_id t))"

definition allowlisted :: "string list \<Rightarrow> TokenInfo \<Rightarrow> bool" where
  "allowlisted allowlist t = (toLowerCase (token_id t) \<in> set (map toLowerCase allowlist))"

definition primarySymbol :: "chain \<Rightarrow> string \<Rightarrow> bool" where
  "primarySymbol ch s = (toUpperCase s \<in> set (PrimaryTokens ch))"

subsection \<open>Concrete inputs\<close>

definition local_env :: collaborators where
  "local_env = \<lparr> getChainAssetLogoPath = (\<lambda>t. ''blockchains/ethereum/assets/'' @ t @ ''/logo.png''),
     isPathExistsSync = (\<lambda>p. True),
     toChecksum = (\<lambda>a. Inr a),
     assetID = (\<lambda>c a. ''c60_t'' @ a),
     logoURI = (\<lambda>a c k. ''https://assets/'' @ c @ ''/'' @ a @ ''/logo.png'') \<rparr>"

definition no_logo_env :: collaborators where
  "no_logo_env = local_env \<lparr> isPathExistsSync := (\<lambda>p. False) \<rparr>"

definition WETH_token :: TokenInfo where
  "WETH_token = \<lparr> token_id = ''0xC02a'', symbol = ''WETH'', name = ''Wrapped Ether'',
     decimals = DecimalsString ''18'' \<rparr>"

definition ETH_token :: TokenInfo where
  "ETH_token = \<lparr> token_id = ''0xEeee'', symbol = ''eth'', name = ''Ether'',
     decimals = DecimalsString ''18'' \<rparr>"

definition TOKENX_token :: TokenInfo where
  "TOKENX_token = \<lparr> token_id = ''0xAbCd'', symbol = ''TOKENX'', name = ''Token X'',
     decimals = DecimalsNumber 6 \<rparr>"

definition BAD_token :: TokenInfo where
  "BAD_token = \<lparr> token_id = ''0xBad0'', symbol = ''BAD'', name = ''Bad decimals'',
     decimals = DecimalsString ''abc'' \<rparr>"

definition NODEC_token :: TokenInfo where
  "NODEC_token = \<lparr> token_id = ''0xDec0'', symbol = ''NODEC'', name = ''No decimals'',
     decimals = DecimalsAbsent \<rparr>"

definition demo_allowlist :: "string list" where
  "demo_allowlist = [''0xc02A'', ''0xabcd'', ''0xeeee'', ''0xdec0'']"

definition pair_WETH_TOKENX :: PairInfo where
  "pair_WETH_TOKENX = \<lparr> pair_id = Some ''0x01'', reserveUSD = ReserveNumber 1000000,
     token0 = Some WETH_token, token1 = Some TOKENX_token \<rparr>"

definition pair_TOKENX_WETH :: PairInfo where
  "pair_TOKENX_WETH = \<lparr> pair_id = Some ''0x02'', reserveUSD = ReserveNumber 2500000,
     token0 = Some TOKENX_token, token1 = Some WETH_token \<rparr>"

definition pair_WETH_ETH :: PairInfo where
  "pair_WETH_ETH = \<lparr> pair_id = Some ''0x03'', reserveUSD = ReserveNumber 3000000,
     token0 = Some WETH_token, token1 = Some ETH_token \<rparr>"

definition pair_low :: PairInfo where
  "pair_low = \<lparr> pair_id = Some ''0x04'', reserveUSD = ReserveNumber 500000,
     token0 = Some WETH_token, token1 = Some TOKENX_token \<rparr>"

definition pair_no_token0 :: PairInfo where
  "pair_no_token0 = \<lparr> pair_id = Some ''0x05'', reserveUSD = ReserveNumber 1000000,
     token0 = None, token1 = Some WETH_token \<rparr>"

definition pair_WETH_NODEC :: PairInfo where
  "pair_WETH_NODEC = \<lparr> pair_id = Some ''0x06'', reserveUSD = ReserveNumber 4000000,
     token0 = Some WETH_token, token1 = Some NODEC_token \<rparr>"

definition pair_empty :: PairInfo where
  "pair_empty = \<lparr> pair_id = Some [], reserveUSD = ReserveNumber 0,
     token0 = None, token1 = None \<rparr>"

definition WETH_item :: TokenItem where
  "WETH_item = \<lparr> item_asset = ''c60_t0xC02a'', item_type = ''ERC20'', address = ''0xC02a'',
     item_name = ''Wrapped Ether'', item_symbol = ''WETH'', item_decimals = IntValue 18,
     item_logoURI = ''https://assets/ethereum/0xC02a/logo.png'', item_pairs = [] \<rparr>"

definition TOKENX_item :: TokenItem where
  "TOKENX_item = \<lparr> item_asset = ''c60_t0xAbCd'', item_type = ''ERC20'', address = ''0xAbCd'',
     item_name = ''Token X'', item_symbol = ''TOKENX'', item_decimals = IntValue 6,
     item_logoURI = ''https://assets/ethereum/0xAbCd/logo.png'', item_pairs = [] \<rparr>"

definition BAD_item :: TokenItem where
  "BAD_item = \<lparr> item_asset = ''c60_t0xBad0'', item_type = ''ERC20'', address = ''0xBad0'',
     item_name = ''Bad decimals'', item_symbol = ''BAD'', item_decimals = NaN,
     item_logoURI = ''https://assets/ethereum/0xBad0/logo.png'', item_pairs = [] \<rparr>"

section \<open>Properties\<close>

subsection \<open>Auxiliary facts\<close>

lemmas js_defs = toUpperCase_def toUpperChar_def toLowerCase_def toLowerChar_def
  not_string_def not_number_def not_object_def less_number_def

lemma array_find_total:
  "array_find (\<lambda>t. Inr (P t)) xs = Inr (List.find P xs)"
  by (induction xs) simp_all

lemma isTokenPrimary_Some:
  "isTokenPrimary ch (Some tk) = Inr (primarySymbol ch (symbol tk))"
  by (auto simp: isTokenPrimary_def primarySymbol_def array_find_total find_None_iff)

lemma isTokenPrimary_None:
  "PrimaryTokens ch \<noteq> [] \<Longrightarrow> isTokenPrimary ch None = Inl TypeError"
  by (cases "PrimaryTokens ch") (simp_all add: isTokenPrimary_def)

lemma primaryTokenIndex_Some:
  "token0 pair = Some t0 \<Longrightarrow> token1 pair = Some t1 \<Longrightarrow>
   primaryTokenIndex ch pair =
     Inr (if primarySymbol ch (symbol t0) then 1 else if primarySymbol ch (symbol t1) then 2 else 0)"
  by (simp add: primaryTokenIndex_def isTokenPrimary_Some)

lemma checkEthTokenExists_iff:
  "checkEthTokenExists env (token_id t) al \<longleftrightarrow> hasLogo env t \<and> allowlisted al t"
  by (auto simp: checkEthTokenExists_def hasLogo_def allowlisted_def find_None_iff)

lemma checkTradingPair_True_iff:
  "checkTradingPair env ch pair m al = Inr True \<longleftrightarrow>
     \<not> structuralGuard pair \<and> \<not> less_number (reserveUSD pair) m \<and>
     (\<exists>t0 t1. token0 pair = Some t0 \<and> token1 pair = Some t1 \<and>
        hasLogo env t0 \<and> allowlisted al t0 \<and> hasLogo env t1 \<and> allowlisted al t1 \<and>
        (primarySymbol ch (symbol t0) \<or> primarySymbol ch (symbol t1)))"
  by (auto simp: checkTradingPair_def primaryTokenIndex_Some checkEthTokenExists_iff
           split: option.splits)

lemmas demo_defs = local_env_def no_logo_env_def WETH_token_def ETH_token_def TOKENX_token_def
  BAD_token_def NODEC_token_def demo_allowlist_def pair_WETH_TOKENX_def pair_TOKENX_WETH_def
  pair_WETH_ETH_def pair_low_def pair_no_token0_def pair_WETH_NODEC_def pair_empty_def
  WETH_item_def TOKENX_item_def BAD_item_def Ethereum_def SmartChain_def

lemma isPrimary_spec_upper:
  "\<forall>t \<in> set ps. toUpperCase t = t \<Longrightarrow> isPrimary_spec tk ps \<longleftrightarrow> toUpperCase (symbol tk) \<in> set ps"
  by (simp add: isPrimary_spec_def map_idI)

lemma filterStep_acc:
  "filterStep env ch al acc x = acc @ filterStep env ch al [] x"
  by (simp add: filterStep_def split: raw_item.splits sum.splits)

lemma foldl_filterStep:
  "foldl (filterStep env ch al) acc xs = acc @ concat (map (filterStep env ch al []) xs)"
proof (induction xs arbitrary: acc)
  case Nil
  show ?case by simp
next
  case (Cons x xs)
  show ?case
  proof -
    have "foldl (filterStep env ch al) (acc @ filterStep env ch al [] x) xs
            = (acc @ filterStep env ch al [] x) @ concat (map (filterStep env ch al []) xs)"
      by (rule Cons.IH)
    then show ?thesis
      using filterStep_acc [of env ch al acc x] by simp
  qed
qed

lemma retrieveUniswapPairs_concat:
  "retrieveUniswapPairs env ch al xs = concat (map (filterStep env ch al []) xs)"
  by (simp add: retrieveUniswapPairs_def foldl_filterStep)

lemma retrieveUniswapPairs_append:
  "retrieveUniswapPairs env ch al (xs @ ys)
     = retrieveUniswapPairs env ch al xs @ retrieveUniswapPairs env ch al ys"
  by (simp add: retrieveUniswapPairs_concat)

lemma retrieveUniswapPairs_Cons:
  "retrieveUniswapPairs env ch al (x # ys)
     = filterStep env ch al [] x @ retrieveUniswapPairs env ch al ys"
  by (simp add: retrieveUniswapPairs_concat)

lemma checkTradingPair_missing_token:
  assumes "\<not> structuralGuard pair" and "\<not> less_number (reserveUSD pair) m"
    and "token0 pair = None \<or> token1 pair = None"
  shows "checkTradingPair env ch pair m al = Inl TypeError"
  using assms by (auto simp: checkTradingPair_def split: option.splits)

lemmas parseInt_defs = parseInt_def stripSign_def stripPrefix_def isWhiteSpace_def
  isRadixDigit_def digitValue_def radixValue_def

lemma filterStep_RawObject:
  "filterStep env ch al [] (RawObject p)
     = (if checkTradingPair env ch p (MinLiquidity ch) al = Inr True then [p] else [])"
  by (auto simp: filterStep_def split: sum.splits)

lemma set_retrieveUniswapPairs:
  "set (retrieveUniswapPairs env ch al xs)
     = {p. RawObject p \<in> set xs \<and> checkTradingPair env ch p (MinLiquidity ch) al = Inr True}"
proof (induction xs)
  case Nil
  show ?case by (simp add: retrieveUniswapPairs_def)
next
  case (Cons x xs)
  show ?case
  proof (cases x)
    case (RawObject p)
    then show ?thesis
      using Cons.IH by (auto simp: retrieveUniswapPairs_Cons filterStep_RawObject)
  next
    case RawNull
    then show ?thesis
      using Cons.IH by (auto simp: retrieveUniswapPairs_Cons filterStep_def)
  next
    case RawPrimitive
    then show ?thesis
      using Cons.IH by (auto simp: retrieveUniswapPairs_Cons filterStep_def)
  qed
qed

lemma mergeTradingPairs_completes:
  "\<forall>p \<in> set ps. \<exists>ab. orientedPair env ch p = Inr ab
   \<Longrightarrow> \<exists>ts. mergeTradingPairs env ch ps tokens = Inr ts"
proof (induction ps arbitrary: tokens)
  case Nil
  show ?case by simp
next
  case (Cons p ps)
  from Cons.prems obtain a b where ab: "orientedPair env ch p = Inr (a, b)"
    by auto
  from Cons.prems have "\<forall>q \<in> set ps. \<exists>ab. orientedPair env ch q = Inr ab"
    by simp
  from Cons.IH [OF this, of "addPairIfNeeded a b tokens"] ab
  show ?case by simp
qed

lemma addPairIfNeeded_appends:
  "\<exists>added. addPairIfNeeded a b L = L @ added \<and> distinct (map address added)
      \<and> set (map address added) \<inter> set (map address L) = {} \<and> set added \<subseteq> {a, b}"
  by (auto simp: addPairIfNeeded_def addTokenIfNeeded_def)

lemma mergeAll_appends:
  "\<exists>added. mergeAll L P = L @ added \<and> distinct (map address added)
      \<and> set (map address added) \<inter> set (map address L) = {}
      \<and> set added \<subseteq> fst ` set P \<union> snd ` set P"
proof (induction P arbitrary: L)
  case Nil
  show ?case by simp
next
  case (Cons ab P)
  obtain a b where ab: "ab = (a, b)" by (cases ab)
  obtain add1 where 1: "addPairIfNeeded a b L = L @ add1" "distinct (map address add1)"
      "set (map address add1) \<inter> set (map address L) = {}" "set add1 \<subseteq> {a, b}"
    using addPairIfNeeded_appends [of a b L] by blast
  obtain add2 where 2: "mergeAll (L @ add1) P = (L @ add1) @ add2" "distinct (map address add2)"
      "set (map address add2) \<inter> set (map address (L @ add1)) = {}"
      "set add2 \<subseteq> fst ` set P \<union> snd ` set P"
    using Cons.IH [of "L @ add1"] by blast
  have m: "mergeAll L (ab # P) = L @ (add1 @ add2)"
    using ab 1(1) 2(1) by simp
  have d: "distinct (map address (add1 @ add2))"
    using 1(2) 2(2) 2(3) by auto
  have i: "set (map address (add1 @ add2)) \<inter> set (map address L) = {}"
    using 1(3) 2(3) by auto
  have s: "set (add1 @ add2) \<subseteq> fst ` set (ab # P) \<union> snd ` set (ab # P)"
    using ab 1(4) 2(4) by auto
  from m d i s show ?case by blast
qed

lemma filter_base:
  assumes "set (map address added) \<inter> set (map address L) = {}"
  shows "filter (\<lambda>t. address t \<in> set (map address L)) (L @ added) = L"
proof -
  have "filter (\<lambda>t. address t \<in> set (map address L)) L = L"
    by (simp add: filter_id_conv)
  moreover have "filter (\<lambda>t. address t \<in> set (map address L)) added = []"
    using assms by (auto simp: filter_empty_conv)
  ultimately show ?thesis by simp
qed

lemma mergeTradingPairs_mergeAll:
  "mergeTradingPairs env ch ps L = Inr R \<Longrightarrow> \<exists>P. R = mergeAll L P \<and> length P = length ps"
proof (induction ps arbitrary: L)
  case Nil
  then have "R = mergeAll L []" by simp
  then show ?case by (intro exI [of _ "[]"]) simp
next
  case (Cons p ps)
  from Cons.prems obtain a b where ab: "orientedPair env ch p = Inr (a, b)"
    and r: "mergeTradingPairs env ch ps (addPairIfNeeded a b L) = Inr R"
    by (auto split: sum.splits)
  from Cons.IH [OF r] obtain P where "R = mergeAll (addPairIfNeeded a b L) P" "length P = length ps"
    by blast
  then have "R = mergeAll L ((a, b) # P) \<and> length ((a, b) # P) = length (p # ps)" by simp
  then show ?case by blast
qed

lemma tokenInfoFromSubgraphToken_symbol:
  "tokenInfoFromSubgraphToken env ch tok = Inr it
   \<Longrightarrow> \<exists>tk. tok = Some tk \<and> item_symbol it = symbol tk"
  by (auto simp: tokenInfoFromSubgraphToken_def split: option.splits sum.splits)

subsection \<open>The primary-token classifier\<close>

text \<open>
  Claim C8. For a pair with both tokens, \<open>primaryTokenIndex\<close> returns 1 (FIRST) when
  the upper-cased symbol of \<open>token0\<close> is in the list of primary symbols, else 2 (SECOND)
  when that of \<open>token1\<close> is, else 0 (NONE); the first token takes precedence and no
  exception is raised when both qualify. For a list of upper-case symbols, as both modules
  have it, this is membership without regard to case, the classifier of the specification.
\<close>

theorem primaryTokenIndex_classifies:
  assumes "token0 pair = Some t0" and "token1 pair = Some t1"
  shows "primaryTokenIndex ch pair =
           Inr (if toUpperCase (symbol t0) \<in> set (PrimaryTokens ch) then 1
                else if toUpperCase (symbol t1) \<in> set (PrimaryTokens ch) then 2 else 0)
         \<and> ((\<forall>t \<in> set (PrimaryTokens ch). toUpperCase t = t) \<longrightarrow>
              (\<exists>k. primaryTokenIndex ch pair = Inr k
                   \<and> side_of_index k = primarySide_spec t0 t1 (PrimaryTokens ch)))"
  using assms
  by (simp add: primaryTokenIndex_Some primarySymbol_def primarySide_spec_def
        isPrimary_spec_upper side_of_index_def)

theorem primaryTokenIndex_classifies_witness:
  "primaryTokenIndex Ethereum pair_WETH_ETH = Inr 1
   \<and> primarySide_spec WETH_token ETH_token (PrimaryTokens Ethereum) = FIRST
   \<and> map toUpperCase (PrimaryTokens Ethereum) = PrimaryTokens Ethereum"
proof -
  have t0: "token0 pair_WETH_ETH = Some WETH_token"
    by (simp add: pair_WETH_ETH_def)
  have t1: "token1 pair_WETH_ETH = Some ETH_token"
    by (simp add: pair_WETH_ETH_def)
  have up: "\<forall>t \<in> set (PrimaryTokens Ethereum). toUpperCase t = t"
    by (simp add: Ethereum_def toUpperCase_def toUpperChar_def)
  have m: "toUpperCase (symbol WETH_token) \<in> set (PrimaryTokens Ethereum)"
    by (simp add: Ethereum_def WETH_token_def toUpperCase_def toUpperChar_def)
  have mp: "map toUpperCase (PrimaryTokens Ethereum) = PrimaryTokens Ethereum"
    by (simp add: Ethereum_def toUpperCase_def toUpperChar_def)
  from primaryTokenIndex_classifies [OF t0 t1, of Ethereum] up m mp
  show ?thesis by (auto simp: side_of_index_def)
qed

subsection \<open>Qualification\<close>

text \<open>
  Claim C3. The structural test of \<open>checkTradingPair\<close> rejects a pair if and only if its
  id is empty or missing, its reserve is zero or missing, and both tokens are missing; a
  pair it rejects is rejected by \<open>checkTradingPair\<close>.
\<close>

theorem structuralGuard_rejects_iff:
  "(structuralGuard pair \<longleftrightarrow>
      (pair_id pair = None \<or> pair_id pair = Some [])
      \<and> (reserveUSD pair = ReserveNumber 0 \<or> reserveUSD pair = ReserveNull
           \<or> reserveUSD pair = ReserveUndefined)
      \<and> token0 pair = None \<and> token1 pair = None)
   \<and> (structuralGuard pair \<longrightarrow> checkTradingPair env ch pair minLiquidity allowlist = Inr False)"
  by (auto simp: structuralGuard_def checkTradingPair_def js_defs
           split: option.splits js_reserve.splits)

theorem structuralGuard_rejects_iff_witness:
  "structuralGuard pair_empty
   \<and> checkTradingPair local_env Ethereum pair_empty 0 demo_allowlist = Inr False
   \<and> \<not> structuralGuard (pair_empty \<lparr> pair_id := Some ''0x07'' \<rparr>)"
  using structuralGuard_rejects_iff [of pair_empty local_env Ethereum 0 demo_allowlist]
        structuralGuard_rejects_iff [of "pair_empty \<lparr> pair_id := Some ''0x07'' \<rparr>" local_env Ethereum 0 demo_allowlist]
  by (simp add: pair_empty_def)

text \<open>
  Claim C7. A pair whose reserve is below the liquidity floor is rejected, whatever the
  allowlist (and the collaborators) are; so is a pair with reserve 500000 under the floor
  1000000.
\<close>

theorem liquidity_floor_rejects:
  "(reserveUSD pair = ReserveNumber r \<and> r < minLiquidity
      \<longrightarrow> checkTradingPair env ch pair minLiquidity allowlist = Inr False)
   \<and> (reserveUSD pair = ReserveNumber 500000
      \<longrightarrow> checkTradingPair env ch pair 1000000 allowlist = Inr False)"
  by (simp add: checkTradingPair_def less_number_def)

theorem liquidity_floor_rejects_witness:
  "reserveUSD pair_low = ReserveNumber 500000 \<and> (500000 :: real) < MinLiquidity Ethereum
   \<and> checkTradingPair local_env Ethereum pair_low (MinLiquidity Ethereum) demo_allowlist = Inr False"
  using liquidity_floor_rejects [of pair_low 500000 "MinLiquidity Ethereum" local_env Ethereum demo_allowlist]
  by (simp add: pair_low_def Ethereum_def)

text \<open>
  Claim C10. A pair with a non-empty id and a reserve at or above the floor, but with a
  missing token, is not rejected by \<open>checkTradingPair\<close>: the call raises a
  \<open>TypeError\<close>. The filter loop of \<open>retrieveUniswapPairs\<close> catches it and skips the
  pair.
\<close>

theorem missing_token_raises:
  assumes "pair_id pair = Some i" and "i \<noteq> []"
    and "reserveUSD pair = ReserveNumber r" and "MinLiquidity ch \<le> r"
    and "token0 pair = None \<or> token1 pair = None"
  shows "checkTradingPair env ch pair (MinLiquidity ch) allowlist = Inl TypeError
         \<and> retrieveUniswapPairs env ch allowlist (xs @ RawObject pair # ys)
             = retrieveUniswapPairs env ch allowlist (xs @ ys)"
proof -
  have g: "\<not> structuralGuard pair"
    using assms(1,2) by (simp add: structuralGuard_def not_string_def)
  have l: "\<not> less_number (reserveUSD pair) (MinLiquidity ch)"
    using assms(3,4) by (simp add: less_number_def)
  have c: "checkTradingPair env ch pair (MinLiquidity ch) allowlist = Inl TypeError"
    by (rule checkTradingPair_missing_token [OF g l assms(5)])
  have "filterStep env ch allowlist [] (RawObject pair) = []"
    by (simp add: filterStep_def c)
  then show ?thesis
    by (simp add: c retrieveUniswapPairs_append retrieveUniswapPairs_Cons)
qed

theorem missing_token_raises_witness:
  "checkTradingPair local_env Ethereum pair_no_token0 (MinLiquidity Ethereum) demo_allowlist
     = Inl TypeError
   \<and> retrieveUniswapPairs local_env Ethereum demo_allowlist
       ([RawObject pair_WETH_TOKENX] @ RawObject pair_no_token0 # [RawNull])
     = retrieveUniswapPairs local_env Ethereum demo_allowlist ([RawObject pair_WETH_TOKENX] @ [RawNull])"
  using missing_token_raises [of pair_no_token0 "''0x05''" 1000000 Ethereum local_env demo_allowlist
          "[RawObject pair_WETH_TOKENX]" "[RawNull]"]
  by (simp add: pair_no_token0_def Ethereum_def)

text \<open>
  Claim C2, as stated: a pair is admitted only if exactly one side is primary and the other
  side is on the allowlist and has a logo. The code does not test that only one side is
  primary: the pair WETH/eth, both on the allowlist and with a logo, is admitted with both
  sides primary.
\<close>

theorem admitted_pair_counterexample:
  "checkTradingPair local_env Ethereum pair_WETH_ETH (MinLiquidity Ethereum) demo_allowlist = Inr True
   \<and> isTokenPrimary Ethereum (token0 pair_WETH_ETH) = Inr True
   \<and> isTokenPrimary Ethereum (token1 pair_WETH_ETH) = Inr True"
  by (simp add: checkTradingPair_True_iff isTokenPrimary_Some structuralGuard_def hasLogo_def
        allowlisted_def primarySymbol_def demo_defs js_defs)

text \<open>
  Claim C2, amended: a pair is admitted only if both tokens are present, at least one
  side is primary, and both sides (so every side that is not primary) are on the allowlist,
  compared without regard to case, and have a logo.
\<close>

theorem admitted_pair_properties:
  assumes "checkTradingPair env ch pair minLiquidity allowlist = Inr True"
  shows "\<exists>t0 t1. token0 pair = Some t0 \<and> token1 pair = Some t1
           \<and> (isTokenPrimary ch (Some t0) = Inr True \<or> isTokenPrimary ch (Some t1) = Inr True)
           \<and> hasLogo env t0 \<and> allowlisted allowlist t0
           \<and> hasLogo env t1 \<and> allowlisted allowlist t1"
  using assms by (auto simp: checkTradingPair_True_iff isTokenPrimary_Some)

theorem admitted_pair_properties_witness:
  "checkTradingPair local_env Ethereum pair_TOKENX_WETH (MinLiquidity Ethereum) demo_allowlist = Inr True
   \<and> isTokenPrimary Ethereum (Some WETH_token) = Inr True
   \<and> hasLogo local_env TOKENX_token \<and> allowlisted demo_allowlist TOKENX_token"
proof -
  have q: "checkTradingPair local_env Ethereum pair_TOKENX_WETH (MinLiquidity Ethereum)
             demo_allowlist = Inr True"
    by (simp add: checkTradingPair_True_iff structuralGuard_def hasLogo_def
          allowlisted_def primarySymbol_def demo_defs js_defs)
  have p: "isTokenPrimary Ethereum (Some WETH_token) = Inr True"
    by (simp add: isTokenPrimary_Some primarySymbol_def demo_defs js_defs)
  from admitted_pair_properties [OF q] p q
  show ?thesis by (simp add: pair_TOKENX_WETH_def)
qed

text \<open>
  Claim C9, as stated: the outcome of the qualification depends on the pair, the policy
  and the allowlist and on nothing else. \<open>checkEthTokenExists\<close> asks the file system
  whether the logo of a token exists: with the same pair, policy and allowlist, the pair
  is admitted when the logos exist and rejected when they do not.
\<close>

theorem qualification_filesystem_counterexample:
  "checkTradingPair local_env Ethereum pair_WETH_TOKENX (MinLiquidity Ethereum) demo_allowlist = Inr True
   \<and> checkTradingPair no_logo_env Ethereum pair_WETH_TOKENX (MinLiquidity Ethereum) demo_allowlist = Inr False"
  by (simp add: checkTradingPair_def checkEthTokenExists_def primaryTokenIndex_Some
        structuralGuard_def primarySymbol_def demo_defs js_defs)

text \<open>
  Claim C9, amended: the outcome of the qualification is determined by the pair, the policy,
  the allowlist and the presence of the logo files of the two tokens of the pair: two
  evaluations that agree on these give the same result, whatever else differs in the
  collaborators.
\<close>

theorem qualification_deterministic:
  assumes "\<forall>t. token0 pair = Some t \<or> token1 pair = Some t \<longrightarrow> hasLogo env t = hasLogo env' t"
  shows "checkTradingPair env ch pair minLiquidity allowlist
           = checkTradingPair env' ch pair minLiquidity allowlist"
proof (cases "token0 pair")
  case None
  then show ?thesis by (simp add: checkTradingPair_def)
next
  case t0: (Some t0)
  have e0: "checkEthTokenExists env (token_id t0) allowlist
              = checkEthTokenExists env' (token_id t0) allowlist"
    using assms t0 by (simp add: checkEthTokenExists_iff)
  show ?thesis
  proof (cases "token1 pair")
    case None
    with t0 e0 show ?thesis by (simp add: checkTradingPair_def)
  next
    case t1: (Some t1)
    have e1: "checkEthTokenExists env (token_id t1) allowlist
                = checkEthTokenExists env' (token_id t1) allowlist"
      using assms t1 by (simp add: checkEthTokenExists_iff)
    from t0 t1 e0 e1 show ?thesis by (simp add: checkTradingPair_def)
  qed
qed

theorem qualification_deterministic_witness:
  "hasLogo local_env WETH_token
     = hasLogo (local_env \<lparr> toChecksum := (\<lambda>a. Inl MalformedTokenError) \<rparr>) WETH_token
   \<and> hasLogo local_env TOKENX_token
     = hasLogo (local_env \<lparr> toChecksum := (\<lambda>a. Inl MalformedTokenError) \<rparr>) TOKENX_token
   \<and> checkTradingPair (local_env \<lparr> toChecksum := (\<lambda>a. Inl MalformedTokenError) \<rparr>) Ethereum
         pair_WETH_TOKENX (MinLiquidity Ethereum) demo_allowlist = Inr True"
proof -
  have h: "\<forall>t. token0 pair_WETH_TOKENX = Some t \<or> token1 pair_WETH_TOKENX = Some t
        \<longrightarrow> hasLogo local_env t = hasLogo (local_env \<lparr> toChecksum := (\<lambda>a. Inl MalformedTokenError) \<rparr>) t"
    by (simp add: hasLogo_def local_env_def)
  have q: "checkTradingPair local_env Ethereum pair_WETH_TOKENX (MinLiquidity Ethereum)
             demo_allowlist = Inr True"
    by (simp add: checkTradingPair_True_iff structuralGuard_def hasLogo_def
          allowlisted_def primarySymbol_def demo_defs js_defs)
  have l: "hasLogo local_env WETH_token
             = hasLogo (local_env \<lparr> toChecksum := (\<lambda>a. Inl MalformedTokenError) \<rparr>) WETH_token"
    "hasLogo local_env TOKENX_token
             = hasLogo (local_env \<lparr> toChecksum := (\<lambda>a. Inl MalformedTokenError) \<rparr>) TOKENX_token"
    by (simp_all add: hasLogo_def local_env_def)
  from qualification_deterministic [OF h, of Ethereum "MinLiquidity Ethereum" demo_allowlist] q l
  show ?thesis by simp
qed

subsection \<open>Token items\<close>

text \<open>
  Claim C4, as stated: a \<open>decimals\<close> field that is not a valid non-negative integer makes
  the conversion fail. \<open>parseInt\<close> does not throw: for the text \<open>abc\<close> it gives \<open>NaN\<close>,
  and the conversion returns a token item with that value.
\<close>

theorem unparsable_decimals_counterexample:
  "decimals BAD_token = DecimalsString ''abc'' \<and> parseInt ''abc'' = NaN
   \<and> tokenInfoFromSubgraphToken local_env Ethereum (Some BAD_token) = Inr BAD_item"
  by (simp add: tokenInfoFromSubgraphToken_def decimalsToString_def parseInt_defs
        BAD_token_def BAD_item_def local_env_def Ethereum_def)

text \<open>
  Claim C4, amended: when the address checksum succeeds, the conversion returns a token
  item whenever the \<open>decimals\<close> field is present, with \<open>parseInt\<close> of its text as the
  decimals (which is \<open>NaN\<close> for a text without a leading integer); it throws, a
  \<open>TypeError\<close>, only when the field is missing.
\<close>

theorem tokenInfoFromSubgraphToken_decimals:
  assumes "toChecksum env (token_id tk) = Inr a"
  shows "(decimals tk = DecimalsAbsent
            \<longrightarrow> tokenInfoFromSubgraphToken env ch (Some tk) = Inl TypeError)
         \<and> (\<forall>s. decimalsToString (decimals tk) = Inr s
            \<longrightarrow> (\<exists>item. tokenInfoFromSubgraphToken env ch (Some tk) = Inr item
                   \<and> address item = a \<and> item_decimals item = parseInt s))"
  using assms by (simp add: tokenInfoFromSubgraphToken_def decimalsToString_def)

theorem tokenInfoFromSubgraphToken_decimals_witness:
  "toChecksum local_env (token_id WETH_token) = Inr ''0xC02a''
   \<and> tokenInfoFromSubgraphToken local_env Ethereum (Some NODEC_token) = Inl TypeError
   \<and> (\<exists>item. tokenInfoFromSubgraphToken local_env Ethereum (Some WETH_token) = Inr item
         \<and> address item = ''0xC02a'' \<and> item_decimals item = IntValue 18)"
proof -
  have c: "toChecksum local_env (token_id WETH_token) = Inr ''0xC02a''"
    by (simp add: local_env_def WETH_token_def)
  have n: "toChecksum local_env (token_id NODEC_token) = Inr ''0xDec0''"
    by (simp add: local_env_def NODEC_token_def)
  have d: "decimalsToString (decimals WETH_token) = Inr ''18''"
    by (simp add: decimalsToString_def WETH_token_def)
  have p: "parseInt ''18'' = IntValue 18"
    by (simp add: parseInt_defs)
  from tokenInfoFromSubgraphToken_decimals [OF c, of Ethereum]
       tokenInfoFromSubgraphToken_decimals [OF n, of Ethereum] c d p
  show ?thesis by (simp add: NODEC_token_def)
qed

subsection \<open>Isolation of a candidate pair\<close>

text \<open>
  Claim C5, as stated: an exception raised for one pair during qualification, conversion or
  merge is caught and the pair is skipped, so the merge completes. Only the filter loop has
  a \<open>try\<close>/\<open>catch\<close>: a pair that is admitted and whose second token has no
  \<open>decimals\<close> field throws in the conversion, and \<open>generateTokenlist\<close> ends with that
  exception, although the other pair is well formed.
\<close>

theorem pair_isolation_counterexample:
  "checkTradingPair local_env Ethereum pair_WETH_NODEC (MinLiquidity Ethereum) demo_allowlist = Inr True
   \<and> orientedPair local_env Ethereum pair_WETH_NODEC = Inl TypeError
   \<and> generateTokenlist local_env Ethereum demo_allowlist
        [RawObject pair_WETH_TOKENX, RawObject pair_WETH_NODEC] [WETH_item] = Inl TypeError"
  by code_simp

text \<open>
  Claim C5, amended: an exception raised while a candidate pair is qualified is caught and
  that pair is skipped, so the other pairs are filtered as if it were not there; the merge
  completes when the conversion of every admitted pair succeeds.
\<close>

theorem qualification_isolated:
  "(checkTradingPair env ch p (MinLiquidity ch) allowlist = Inl e
      \<longrightarrow> retrieveUniswapPairs env ch allowlist (xs @ RawObject p # ys)
            = retrieveUniswapPairs env ch allowlist xs @ retrieveUniswapPairs env ch allowlist ys)
   \<and> ((\<forall>q. RawObject q \<in> set pairs
             \<and> checkTradingPair env ch q (MinLiquidity ch) allowlist = Inr True
           \<longrightarrow> (\<exists>ab. orientedPair env ch q = Inr ab))
      \<longrightarrow> (\<exists>ts. generateTokenlist env ch allowlist pairs tokens = Inr ts))"
proof (intro conjI impI)
  assume "checkTradingPair env ch p (MinLiquidity ch) allowlist = Inl e"
  then have "filterStep env ch allowlist [] (RawObject p) = []"
    by (simp add: filterStep_def)
  then show "retrieveUniswapPairs env ch allowlist (xs @ RawObject p # ys)
            = retrieveUniswapPairs env ch allowlist xs @ retrieveUniswapPairs env ch allowlist ys"
    by (simp add: retrieveUniswapPairs_append retrieveUniswapPairs_Cons)
next
  assume a: "\<forall>q. RawObject q \<in> set pairs
             \<and> checkTradingPair env ch q (MinLiquidity ch) allowlist = Inr True
           \<longrightarrow> (\<exists>ab. orientedPair env ch q = Inr ab)"
  have "\<forall>q \<in> set (retrieveUniswapPairs env ch allowlist pairs). \<exists>ab. orientedPair env ch q = Inr ab"
    using a by (simp add: set_retrieveUniswapPairs)
  then show "\<exists>ts. generateTokenlist env ch allowlist pairs tokens = Inr ts"
    unfolding generateTokenlist_def by (rule mergeTradingPairs_completes)
qed

theorem qualification_isolated_witness:
  "checkTradingPair local_env Ethereum pair_no_token0 (MinLiquidity Ethereum) demo_allowlist
     = Inl TypeError
   \<and> retrieveUniswapPairs local_env Ethereum demo_allowlist
        ([RawObject pair_WETH_TOKENX] @ RawObject pair_no_token0 # [RawNull])
      = [pair_WETH_TOKENX]
   \<and> (\<exists>ts. generateTokenlist local_env Ethereum demo_allowlist
          [RawObject pair_WETH_TOKENX, RawObject pair_no_token0, RawNull] [WETH_item] = Inr ts)"
proof -
  have c: "checkTradingPair local_env Ethereum pair_no_token0 (MinLiquidity Ethereum)
             demo_allowlist = Inl TypeError"
    by code_simp
  have o: "orientedPair local_env Ethereum pair_WETH_TOKENX = Inr (WETH_item, TOKENX_item)"
    by code_simp
  have a: "\<forall>q. RawObject q \<in> set [RawObject pair_WETH_TOKENX, RawObject pair_no_token0, RawNull]
             \<and> checkTradingPair local_env Ethereum q (MinLiquidity Ethereum) demo_allowlist = Inr True
           \<longrightarrow> (\<exists>ab. orientedPair local_env Ethereum q = Inr ab)"
    using c o by auto
  have x: "retrieveUniswapPairs local_env Ethereum demo_allowlist [RawObject pair_WETH_TOKENX]
             = [pair_WETH_TOKENX]"
    by code_simp
  have y: "retrieveUniswapPairs local_env Ethereum demo_allowlist [RawNull] = []"
    by code_simp
  from qualification_isolated [of local_env Ethereum pair_no_token0 demo_allowlist TypeError
         "[RawObject pair_WETH_TOKENX]" "[RawNull]"
         "[RawObject pair_WETH_TOKENX, RawObject pair_no_token0, RawNull]" "[WETH_item]"]
       c a x y
  show ?thesis by simp
qed

subsection \<open>The merge\<close>

text \<open>
  Claim C6. The merge of a sequence of pairs into a base list keeps the base list as a
  prefix, so no entry is removed or reordered and the result restricted to the addresses of
  the base list is the base list; the appended tokens come from the pairs, were absent from
  the base list, and have pairwise different addresses, so each token is appended at most
  once; a base list without duplicate addresses gives a result without duplicate
  addresses. The same holds for the list that the loop of \<open>generateTokenlist\<close> returns.
\<close>

theorem merge_append_only:
  "(\<exists>added. mergeAll L P = L @ added \<and> distinct (map address added)
       \<and> set (map address added) \<inter> set (map address L) = {}
       \<and> set added \<subseteq> fst ` set P \<union> snd ` set P)
   \<and> filter (\<lambda>t. address t \<in> set (map address L)) (mergeAll L P) = L
   \<and> (distinct (map address L) \<longrightarrow> distinct (map address (mergeAll L P)))
   \<and> (mergeTradingPairs env ch ps L = Inr R \<longrightarrow>
        (\<exists>added. R = L @ added \<and> distinct (map address added)
           \<and> set (map address added) \<inter> set (map address L) = {}))"
proof -
  obtain added where a: "mergeAll L P = L @ added" "distinct (map address added)"
      "set (map address added) \<inter> set (map address L) = {}"
      "set added \<subseteq> fst ` set P \<union> snd ` set P"
    using mergeAll_appends [of L P] by blast
  have f: "filter (\<lambda>t. address t \<in> set (map address L)) (mergeAll L P) = L"
    using filter_base [OF a(3)] a(1) by simp
  have d: "distinct (map address L) \<longrightarrow> distinct (map address (mergeAll L P))"
    using a(1,2,3) by auto
  have g: "mergeTradingPairs env ch ps L = Inr R \<longrightarrow>
        (\<exists>added. R = L @ added \<and> distinct (map address added)
           \<and> set (map address added) \<inter> set (map address L) = {})"
  proof
    assume "mergeTradingPairs env ch ps L = Inr R"
    then obtain Q where "R = mergeAll L Q"
      using mergeTradingPairs_mergeAll by blast
    then show "\<exists>added. R = L @ added \<and> distinct (map address added)
           \<and> set (map address added) \<inter> set (map address L) = {}"
      using mergeAll_appends [of L Q] by auto
  qed
  from a f d g show ?thesis by blast
qed

theorem merge_append_only_witness:
  "distinct (map address [WETH_item])
   \<and> mergeAll [WETH_item] [(WETH_item, TOKENX_item), (TOKENX_item, WETH_item)]
       = [WETH_item, TOKENX_item]
   \<and> distinct (map address [WETH_item, TOKENX_item])
   \<and> mergeTradingPairs local_env Ethereum [pair_WETH_TOKENX, pair_TOKENX_WETH] [WETH_item]
       = Inr [WETH_item, TOKENX_item]"
proof -
  have m: "mergeAll [WETH_item] [(WETH_item, TOKENX_item), (TOKENX_item, WETH_item)]
       = [WETH_item, TOKENX_item]"
    by (simp add: addPairIfNeeded_def addTokenIfNeeded_def WETH_item_def TOKENX_item_def)
  have t: "mergeTradingPairs local_env Ethereum [pair_WETH_TOKENX, pair_TOKENX_WETH] [WETH_item]
       = Inr [WETH_item, TOKENX_item]"
    by code_simp
  have d: "distinct (map address [WETH_item])" by simp
  from merge_append_only [of "[WETH_item]" "[(WETH_item, TOKENX_item), (TOKENX_item, WETH_item)]"
         local_env Ethereum "[pair_WETH_TOKENX, pair_TOKENX_WETH]" "[WETH_item, TOKENX_item]"] m t d
  show ?thesis by simp
qed

text \<open>
  Claim C1, as stated: the pair handed to the merge has the primary token as its second
  element. For the admitted pair WETH/TOKENX, whose \<open>token0\<close> is the primary WETH, no swap
  takes place and the pair handed over is (WETH, TOKENX): the second element is not primary.
\<close>

theorem orientation_counterexample:
  "checkTradingPair local_env Ethereum pair_WETH_TOKENX (MinLiquidity Ethereum) demo_allowlist = Inr True
   \<and> orientedPair local_env Ethereum pair_WETH_TOKENX = Inr (WETH_item, TOKENX_item)
   \<and> isTokenPrimary Ethereum (token0 pair_WETH_TOKENX) = Inr True
   \<and> item_symbol WETH_item = symbol WETH_token
   \<and> \<not> primarySymbol Ethereum (item_symbol TOKENX_item)"
  by code_simp

text \<open>
  Claim C1, amended: for an admitted pair the caller hands the primary token to the merge
  as the first element: when \<open>primaryTokenIndex\<close> is 2 the two items are swapped, else
  they keep their order. For the pair WETH/TOKENX and the base list [WETH] the pair handed
  over is (WETH, TOKENX) and the merged list is [WETH, TOKENX].
\<close>

theorem primary_token_first:
  "(checkTradingPair env ch p minLiquidity allowlist = Inr True
      \<and> orientedPair env ch p = Inr (a, b)
    \<longrightarrow> primarySymbol ch (item_symbol a)
        \<and> (primaryTokenIndex ch p = Inr 2
             \<longrightarrow> tokenInfoFromSubgraphToken env ch (token1 p) = Inr a
                 \<and> tokenInfoFromSubgraphToken env ch (token0 p) = Inr b)
        \<and> (primaryTokenIndex ch p \<noteq> Inr 2
             \<longrightarrow> tokenInfoFromSubgraphToken env ch (token0 p) = Inr a
                 \<and> tokenInfoFromSubgraphToken env ch (token1 p) = Inr b))
   \<and> orientedPair local_env Ethereum pair_WETH_TOKENX = Inr (WETH_item, TOKENX_item)
   \<and> generateTokenlist local_env Ethereum demo_allowlist [RawObject pair_WETH_TOKENX] [WETH_item]
        = Inr [WETH_item, TOKENX_item]"
proof -
  have gen: "checkTradingPair env ch p minLiquidity allowlist = Inr True
      \<and> orientedPair env ch p = Inr (a, b)
    \<longrightarrow> primarySymbol ch (item_symbol a)
        \<and> (primaryTokenIndex ch p = Inr 2
             \<longrightarrow> tokenInfoFromSubgraphToken env ch (token1 p) = Inr a
                 \<and> tokenInfoFromSubgraphToken env ch (token0 p) = Inr b)
        \<and> (primaryTokenIndex ch p \<noteq> Inr 2
             \<longrightarrow> tokenInfoFromSubgraphToken env ch (token0 p) = Inr a
                 \<and> tokenInfoFromSubgraphToken env ch (token1 p) = Inr b)"
  proof
    assume h: "checkTradingPair env ch p minLiquidity allowlist = Inr True
      \<and> orientedPair env ch p = Inr (a, b)"
    then obtain t0 t1 where t: "token0 p = Some t0" "token1 p = Some t1"
      and pr: "primarySymbol ch (symbol t0) \<or> primarySymbol ch (symbol t1)"
      by (auto simp: checkTradingPair_True_iff)
    from h obtain i0 i1 where i: "tokenInfoFromSubgraphToken env ch (token0 p) = Inr i0"
      "tokenInfoFromSubgraphToken env ch (token1 p) = Inr i1"
      by (auto simp: orientedPair_def split: sum.splits)
    have s: "item_symbol i0 = symbol t0" "item_symbol i1 = symbol t1"
      using tokenInfoFromSubgraphToken_symbol [OF i(1)] tokenInfoFromSubgraphToken_symbol [OF i(2)] t
      by auto
    have k: "primaryTokenIndex ch p =
       Inr (if primarySymbol ch (symbol t0) then 1 else if primarySymbol ch (symbol t1) then 2 else 0)"
      by (rule primaryTokenIndex_Some [OF t])
    have o: "(a, b) = (if \<not> primarySymbol ch (symbol t0) \<and> primarySymbol ch (symbol t1)
                       then (i1, i0) else (i0, i1))"
      using h i k by (auto simp: orientedPair_def split: if_splits)
    have 1: "primarySymbol ch (item_symbol a)"
      using o pr s by (auto split: if_splits)
    have 2: "primaryTokenIndex ch p = Inr 2
               \<longrightarrow> tokenInfoFromSubgraphToken env ch (token1 p) = Inr a
                   \<and> tokenInfoFromSubgraphToken env ch (token0 p) = Inr b"
      using o i k by (auto split: if_splits)
    have 3: "primaryTokenIndex ch p \<noteq> Inr 2
               \<longrightarrow> tokenInfoFromSubgraphToken env ch (token0 p) = Inr a
                   \<and> tokenInfoFromSubgraphToken env ch (token1 p) = Inr b"
      using o i k by (auto split: if_splits)
    from 1 2 3 show "primarySymbol ch (item_symbol a)
        \<and> (primaryTokenIndex ch p = Inr 2
             \<longrightarrow> tokenInfoFromSubgraphToken env ch (token1 p) = Inr a
                 \<and> tokenInfoFromSubgraphToken env ch (token0 p) = Inr b)
        \<and> (primaryTokenIndex ch p \<noteq> Inr 2
             \<longrightarrow> tokenInfoFromSubgraphToken env ch (token0 p) = Inr a
                 \<and> tokenInfoFromSubgraphToken env ch (token1 p) = Inr b)"
      by blast
  qed
  have c1: "orientedPair local_env Ethereum pair_WETH_TOKENX = Inr (WETH_item, TOKENX_item)"
    by code_simp
  have c2: "generateTokenlist local_env Ethereum demo_allowlist [RawObject pair_WETH_TOKENX]
              [WETH_item] = Inr [WETH_item, TOKENX_item]"
    by code_simp
  from gen c1 c2 show ?thesis by blast
qed

theorem primary_token_first_witness:
  "checkTradingPair local_env Ethereum pair_TOKENX_WETH (MinLiquidity Ethereum) demo_allowlist = Inr True
   \<and> primaryTokenIndex Ethereum pair_TOKENX_WETH = Inr 2
   \<and> orientedPair local_env Ethereum pair_TOKENX_WETH = Inr (WETH_item, TOKENX_item)
   \<and> primarySymbol Ethereum (item_symbol WETH_item)
   \<and> tokenInfoFromSubgraphToken local_env Ethereum (token1 pair_TOKENX_WETH) = Inr WETH_item"
proof -
  have q: "checkTradingPair local_env Ethereum pair_TOKENX_WETH (MinLiquidity Ethereum)
             demo_allowlist = Inr True"
    by code_simp
  have k: "primaryTokenIndex Ethereum pair_TOKENX_WETH = Inr 2"
    by code_simp
  have o: "orientedPair local_env Ethereum pair_TOKENX_WETH = Inr (WETH_item, TOKENX_item)"
    by code_simp
  from primary_token_first [of local_env Ethereum pair_TOKENX_WETH "MinLiquidity Ethereum"
         demo_allowlist WETH_item TOKENX_item] q k o
  show ?thesis by simp
qed

end
